theory Spec2Isabelle
  imports Main "HOL-Library.Sublist"
begin

section \<open>Strings\<close>

text \<open>
  JavaScript strings are modelled as \<^typ>\<open>string\<close> (a list of 8-bit characters), which is
  exact for ASCII text such as token names, symbols and hexadecimal addresses.
  \<open>String.prototype.toLowerCase\<close> maps \<open>A\<close>..\<open>Z\<close> to \<open>a\<close>..\<open>z\<close> and leaves every other
  character alone; \<open>String.prototype.trim\<close> removes the ASCII white space (tab, line feed,
  vertical tab, form feed, carriage return, space) at both ends;
  \<open>String.prototype.includes\<close> is the contiguous-substring test.
\<close>

definition lowerChar :: "char \<Rightarrow> char" where
  "lowerChar c =
     (let n = (of_char c :: nat) in if 65 \<le> n \<and> n \<le> 90 then char_of (n + 32) else c)"

definition toLowerCase :: "string \<Rightarrow> string" where
  "toLowerCase s = map lowerChar s"

definition isWhiteSpace :: "char \<Rightarrow> bool" where
  "isWhiteSpace c = ((of_char c :: nat) \<in> {9, 10, 11, 12, 13, 32})"

definition trim :: "string \<Rightarrow> string" where
  "trim s = rev (dropWhile isWhiteSpace (rev (dropWhile isWhiteSpace s)))"

fun startsWith :: "'a list \<Rightarrow> 'a list \<Rightarrow> bool" where
  "startsWith s [] = True"
| "startsWith [] (q # qs) = False"
| "startsWith (c # cs) (q # qs) = (c = q \<and> startsWith cs qs)"

fun str_includes :: "'a list \<Rightarrow> 'a list \<Rightarrow> bool" where
  "str_includes [] q = (q = [])"
| "str_includes (c # cs) q = (startsWith (c # cs) q \<or> str_includes cs q)"

section \<open>Tokens, balances and objects\<close>

text \<open>
  \<open>ERC20BridgeToken\<close> and \<open>SearchableToken\<close> are declared outside the files at hand
  (\<open>TokenModalUtils\<close> and the bridge SDK); the records carry the fields the modal reads.
  A \<open>SearchableToken\<close> is an \<open>ERC20BridgeToken\<close> with the ids of the token lists it is on.
\<close>

record ERC20BridgeToken =
  name :: string
  symbol :: string
  address :: string
  l2Address :: "string option"
  decimals :: nat
  logoURI :: "string option"
  listID :: "nat option"

record SearchableToken = ERC20BridgeToken +
  tokenLists :: "nat list"

text \<open>A \<open>BigNumber\<close> is an unbounded integer; a balance that is not loaded is \<open>None\<close>.\<close>

record BridgeBalance =
  balance :: "int option"
  arbChainBalance :: "int option"

record Balances =
  eth :: BridgeBalance
  erc20 :: "string \<rightharpoonup> BridgeBalance"

text \<open>
  An object used as a dictionary is the list of its bindings in insertion order;
  \<open>Object.keys\<close> lists the keys in that order and a property read finds the binding of
  the key, if any. (Token addresses are not array indices, which \<open>Object.keys\<close> would
  list first.)
\<close>

type_synonym 'v js_object = "(string \<times> 'v) list"

definition Object_keys :: "'v js_object \<Rightarrow> string list" where
  "Object_keys obj = map fst obj"

definition getProp :: "'v js_object \<Rightarrow> string \<Rightarrow> 'v option" where
  "getProp obj k = map_of obj k"

text \<open>
  A value that is thrown, or with which a promise is rejected; the source types it \<open>any\<close>
  and inspects only its \<open>name\<close>. \<open>Error n\<close> is an object whose \<open>name\<close> reads as the string
  \<open>n\<close> (an \<open>Error\<close> object), \<open>Nullish\<close> is \<open>null\<close> or \<open>undefined\<close>, of which reading \<open>name\<close>
  throws a \<open>TypeError\<close>, and \<open>Other\<close> is any other value, whose \<open>name\<close> does not read as a
  string.
\<close>

datatype js_error = Error string | Other | Nullish

definition TypeError :: js_error where
  "TypeError = Error ''TypeError''"

section \<open>The tokens panel: candidates, filter and sort\<close>

definition ETH_IDENTIFIER :: string where
  "ETH_IDENTIFIER = ''eth.address''"

text \<open>
  \<open>getBalance\<close>: the balance of an address in the active mode. \<open>balances\<close> itself may be
  undefined (\<open>balances?.\<close>), and so may the entry of an address (\<open>erc20[address]?.\<close>).
\<close>

definition getBalance :: "Balances option \<Rightarrow> bool \<Rightarrow> string \<Rightarrow> int option" where
  "getBalance balances isDepositMode addr =
     (if addr = ETH_IDENTIFIER then
        (case balances of
           None \<Rightarrow> None
         | Some b \<Rightarrow> if isDepositMode then balance (eth b) else arbChainBalance (eth b))
      else
        (case balances of
           None \<Rightarrow> None
         | Some b \<Rightarrow>
             (case erc20 b addr of
                None \<Rightarrow> None
              | Some e \<Rightarrow> if isDepositMode then balance e else arbChainBalance e)))"

text \<open>
  \<open>[...new Set(xs)]\<close>: the elements of \<open>xs\<close> in the order of their first occurrence.
\<close>

fun dedupe :: "'a list \<Rightarrow> 'a list" where
  "dedupe [] = []"
| "dedupe (x # xs) = x # dedupe (filter (\<lambda>y. y \<noteq> x) xs)"

definition candidates :: "SearchableToken js_object \<Rightarrow> SearchableToken js_object \<Rightarrow> string list" where
  "candidates tokensFromUser tokensFromLists =
     ETH_IDENTIFIER # dedupe (Object_keys tokensFromUser @ Object_keys tokensFromLists)"

text \<open>\<open>tokensFromUser[address] || tokensFromLists[address]\<close>, the record the filter reads.\<close>

definition searchedToken ::
  "SearchableToken js_object \<Rightarrow> SearchableToken js_object \<Rightarrow> string \<Rightarrow> SearchableToken option" where
  "searchedToken tokensFromUser tokensFromLists addr =
     (case getProp tokensFromUser addr of
        Some t \<Rightarrow> Some t
      | None \<Rightarrow> getProp tokensFromLists addr)"

text \<open>\<open>tokensFromLists[address] || tokensFromUser[address]\<close>, the record a row shows.\<close>

definition renderedToken ::
  "SearchableToken js_object \<Rightarrow> SearchableToken js_object \<Rightarrow> string \<Rightarrow> SearchableToken option" where
  "renderedToken tokensFromUser tokensFromLists addr =
     (case getProp tokensFromLists addr of
        Some t \<Rightarrow> Some t
      | None \<Rightarrow> getProp tokensFromUser addr)"

text \<open>
  The text a query is matched against:
  \<open>token.name + token.symbol + token.address + (token.l2Address || '')\<close>, lower-cased.
\<close>

definition searchText :: "SearchableToken \<Rightarrow> string" where
  "searchText t =
     toLowerCase (name t @ symbol t @ address t @ (case l2Address t of None \<Rightarrow> [] | Some a \<Rightarrow> a))"

definition tokenSearch :: "string \<Rightarrow> string" where
  "tokenSearch newToken = toLowerCase (trim newToken)"

text \<open>
  The callback of \<open>filter\<close>. Reading \<open>token.name\<close> of an address bound in neither object
  would throw a \<open>TypeError\<close>; that branch is \<open>Inl\<close>.
\<close>

definition shouldShow ::
  "SearchableToken js_object \<Rightarrow> SearchableToken js_object \<Rightarrow> Balances option \<Rightarrow> bool \<Rightarrow>
   string \<Rightarrow> string \<Rightarrow> js_error + bool" where
  "shouldShow tokensFromUser tokensFromLists balances isDepositMode query addr =
     (if query = [] then
        (if addr = ETH_IDENTIFIER then Inr True
         else
           (case getBalance balances isDepositMode addr of
              None \<Rightarrow> Inr False
            | Some b \<Rightarrow> Inr (b > 0)))
      else if addr = ETH_IDENTIFIER then Inr (str_includes ''ethereumeth'' query)
      else
        (case searchedToken tokensFromUser tokensFromLists addr of
           None \<Rightarrow> Inl TypeError
         | Some t \<Rightarrow> Inr (str_includes (searchText t) query)))"

text \<open>\<open>Array.prototype.filter\<close> with a callback that may throw.\<close>

fun filterE :: "('a \<Rightarrow> js_error + bool) \<Rightarrow> 'a list \<Rightarrow> js_error + 'a list" where
  "filterE p [] = Inr []"
| "filterE p (x # xs) =
     (case p x of
        Inl e \<Rightarrow> Inl e
      | Inr keep \<Rightarrow>
          (case filterE p xs of
             Inl e \<Rightarrow> Inl e
           | Inr ys \<Rightarrow> Inr (if keep then x # ys else ys)))"

text \<open>The comparator handed to \<open>sort\<close>.\<close>

definition compareTokens :: "Balances option \<Rightarrow> bool \<Rightarrow> string \<Rightarrow> string \<Rightarrow> int" where
  "compareTokens balances isDepositMode address1 address2 =
     (if address1 = ETH_IDENTIFIER then - 1
      else if address2 = ETH_IDENTIFIER then 1
      else
        (case (getBalance balances isDepositMode address1, getBalance balances isDepositMode address2) of
           (None, None) \<Rightarrow> 0
         | (None, Some bal2) \<Rightarrow> 1
         | (Some bal1, None) \<Rightarrow> - 1
         | (Some bal1, Some bal2) \<Rightarrow> if bal1 > bal2 then - 1 else 1))"

text \<open>
  \<open>Array.prototype.sort\<close> belongs to the host. It is modelled as the stable insertion
  sort: the elements are taken from left to right and each goes in front of the first
  element already placed that the comparator puts it before (a negative result).
\<close>

fun insertBy :: "('a \<Rightarrow> 'a \<Rightarrow> int) \<Rightarrow> 'a \<Rightarrow> 'a list \<Rightarrow> 'a list" where
  "insertBy cmp x [] = [x]"
| "insertBy cmp x (y # ys) = (if cmp x y < 0 then x # y # ys else y # insertBy cmp x ys)"

definition Array_sort :: "('a \<Rightarrow> 'a \<Rightarrow> int) \<Rightarrow> 'a list \<Rightarrow> 'a list" where
  "Array_sort cmp xs = foldl (\<lambda>placed x. insertBy cmp x placed) [] xs"

definition tokensToShow ::
  "SearchableToken js_object \<Rightarrow> SearchableToken js_object \<Rightarrow> Balances option \<Rightarrow> bool \<Rightarrow>
   string \<Rightarrow> js_error + string list" where
  "tokensToShow tokensFromUser tokensFromLists balances isDepositMode newToken =
     (case filterE
             (shouldShow tokensFromUser tokensFromLists balances isDepositMode (tokenSearch newToken))
             (candidates tokensFromUser tokensFromLists) of
        Inl e \<Rightarrow> Inl e
      | Inr shown \<Rightarrow> Inr (Array_sort (compareTokens balances isDepositMode) shown))"

text \<open>
  \<open>rowRenderer\<close>: the row shown for an address of the display list, and what a click on
  it hands to \<open>onTokenSelected\<close> (\<open>None\<close> is \<open>null\<close>, the native asset). The row of an
  address bound in neither object has no token to show; the display list holds no such
  address.
\<close>

datatype row = EtherRow | TokenRow SearchableToken

definition rowRenderer ::
  "SearchableToken js_object \<Rightarrow> SearchableToken js_object \<Rightarrow> string \<Rightarrow> row option" where
  "rowRenderer tokensFromUser tokensFromLists addr =
     (if addr = ETH_IDENTIFIER then Some EtherRow
      else map_option TokenRow (renderedToken tokensFromUser tokensFromLists addr))"

fun onClick :: "row \<Rightarrow> SearchableToken option" where
  "onClick EtherRow = None"
| "onClick (TokenRow t) = Some t"

section \<open>The tokens panel: adding a token by address\<close>

text \<open>
  The state of the form of the mounted \<open>TokensPanel\<close>, with two ghost counters of the
  calls of \<open>storeNewToken\<close> (each makes one \<open>token.add\<close> request) that have not settled
  yet: \<open>pending\<close> counts those started by the mounted form, \<open>stale\<close> those started by a
  form that has been unmounted since. \<open>isAddress\<close> is the address check of the \<open>ethers\<close>
  library, a parameter here.
\<close>

record panel =
  newToken :: string
  isAddingToken :: bool
  pending :: nat
  stale :: nat

datatype effect =
    Close
  | SetSelectedToken "ERC20BridgeToken option"
  | OnImportToken string
  | GetL1TokenData string
  | UpdateTokenData string
  | ConsoleWarn js_error
  | ConsoleLog string
  | ConsoleLogError js_error
  | Alert string

definition initialPanel :: panel where
  "initialPanel = \<lparr>newToken = [], isAddingToken = False, pending = 0, stale = 0\<rparr>"

text \<open>\<open>addNewToken\<close> up to its \<open>await\<close>: the guard, then the flag and the request.\<close>

definition addNewToken :: "(string \<Rightarrow> bool) \<Rightarrow> panel \<Rightarrow> panel" where
  "addNewToken isAddress p =
     (if \<not> isAddress (newToken p) \<or> isAddingToken p then p
      else p\<lparr>isAddingToken := True, pending := pending p + 1\<rparr>)"

text \<open>
  The handler that \<open>storeNewToken\<close> attaches with \<open>.catch\<close>: what it throws, if anything,
  and the calls it makes. Reading \<open>ex.name\<close> of \<open>null\<close> or \<open>undefined\<close> throws.
\<close>

definition storeNewToken_catch :: "js_error \<Rightarrow> js_error option \<times> effect list" where
  "storeNewToken_catch ex =
     (case ex of
        Nullish \<Rightarrow> (Some TypeError, [ConsoleLog ''Token not found on this network''])
      | Other \<Rightarrow> (None, [ConsoleLog ''Token not found on this network''])
      | Error n \<Rightarrow>
          (None,
           ConsoleLog ''Token not found on this network'' #
           (if n = ''TokenDisabledError''
            then [Alert ''This token is currently paused in the bridge''] else [])))"

text \<open>
  The rest of \<open>addNewToken\<close>, run when \<open>token.add\<close> settles (\<open>None\<close>: resolved,
  \<open>Some ex\<close>: rejected with \<open>ex\<close>): the handler of \<open>storeNewToken\<close>, the \<open>catch\<close> of
  \<open>addNewToken\<close> for what that handler throws, then \<open>finally\<close>.
\<close>

definition addNewToken_settled :: "js_error option \<Rightarrow> panel \<Rightarrow> panel \<times> effect list" where
  "addNewToken_settled outcome p =
     (p\<lparr>isAddingToken := False, pending := pending p - 1\<rparr>,
      case outcome of
        None \<Rightarrow> []
      | Some ex \<Rightarrow>
          (case storeNewToken_catch ex of
             (None, calls) \<Rightarrow> calls
           | (Some thrown, calls) \<Rightarrow> calls @ [ConsoleLogError thrown]))"

text \<open>
  The events of the form: typing; submitting; the settling of the request of the mounted
  form; \<open>Remount\<close>, the panel being unmounted and mounted again (the modal shows the token
  lists and then the tokens again, or is closed and opened), which brings a form in its
  initial state while the requests go on; and the settling of a request of a form since
  unmounted, whose \<open>setIsAddingToken\<close> has no effect. Nothing settles when nothing is
  outstanding.
\<close>

datatype panel_event =
    SetNewToken string
  | SubmitForm
  | AddSettled "js_error option"
  | Remount
  | StaleSettled "js_error option"

fun panel_step :: "(string \<Rightarrow> bool) \<Rightarrow> panel \<Rightarrow> panel_event \<Rightarrow> panel option" where
  "panel_step isAddress p (SetNewToken s) = Some (p\<lparr>newToken := s\<rparr>)"
| "panel_step isAddress p SubmitForm = Some (addNewToken isAddress p)"
| "panel_step isAddress p (AddSettled outcome) =
     (if pending p = 0 then None else Some (fst (addNewToken_settled outcome p)))"
| "panel_step isAddress p Remount =
     Some \<lparr>newToken = [], isAddingToken = False, pending = 0, stale = stale p + pending p\<rparr>"
| "panel_step isAddress p (StaleSettled outcome) =
     (if stale p = 0 then None else Some (p\<lparr>stale := stale p - 1\<rparr>))"

fun panel_run :: "(string \<Rightarrow> bool) \<Rightarrow> panel \<Rightarrow> panel_event list \<Rightarrow> panel option" where
  "panel_run isAddress p [] = Some p"
| "panel_run isAddress p (e # es) =
     (case panel_step isAddress p e of None \<Rightarrow> None | Some p' \<Rightarrow> panel_run isAddress p' es)"

section \<open>The selection dispatcher\<close>

text \<open>
  What \<open>selectToken\<close> reads: the bridge-token set (undefined while the network is being
  switched), the token API of the bridge (\<open>token?.\<close>) with the outcome of its
  \<open>getL1TokenData\<close> per address (\<open>Inl\<close>: the promise is rejected), and \<open>toERC20BridgeToken\<close>,
  declared outside the files at hand and a parameter here, as is the type \<open>'d\<close> of the
  fetched data.
\<close>

record 'd TokenApi =
  getL1TokenData :: "string \<Rightarrow> js_error + 'd option"

record 'd dispatcher_env =
  bridgeTokens :: "(string \<rightharpoonup> ERC20BridgeToken) option"
  token :: "'d TokenApi option"
  toERC20BridgeToken :: "'d \<Rightarrow> ERC20BridgeToken"

text \<open>
  A run of a block: the error it throws, if any, the selected token after it, and the
  calls it made, in order.
\<close>

type_synonym run = "js_error option \<times> ERC20BridgeToken option \<times> effect list"

text \<open>The \<open>try\<close> block, for a token with an address.\<close>

definition selectToken_try ::
  "'d dispatcher_env \<Rightarrow> SearchableToken \<Rightarrow> ERC20BridgeToken option \<Rightarrow> run" where
  "selectToken_try env t selected =
     (case bridgeTokens env of
        None \<Rightarrow> (Some TypeError, selected, [])
      | Some known \<Rightarrow>
          (case known (address t) of
             None \<Rightarrow> (None, selected, [OnImportToken (address t)])
           | Some b \<Rightarrow>
               (case token env of
                  None \<Rightarrow> (None, selected, [])
                | Some api \<Rightarrow>
                    (case getL1TokenData api (address t) of
                       Inl err \<Rightarrow> (Some err, selected, [GetL1TokenData (address t)])
                     | Inr None \<Rightarrow> (None, selected, [GetL1TokenData (address t)])
                     | Inr (Some data) \<Rightarrow>
                         (let chosen = (toERC20BridgeToken env data)\<lparr>l2Address := l2Address t\<rparr>
                          in (None, Some chosen,
                              [GetL1TokenData (address t), UpdateTokenData (address t),
                               SetSelectedToken (Some chosen)]))))))"

text \<open>
  The \<open>catch\<close> block: what it throws, if anything, and the calls it makes. After
  \<open>console.warn(error)\<close> it reads \<open>error.name\<close>, which throws a \<open>TypeError\<close> when the value
  caught is \<open>null\<close> or \<open>undefined\<close>.
\<close>

definition selectToken_catch :: "js_error \<Rightarrow> js_error option \<times> effect list" where
  "selectToken_catch err =
     (case err of
        Nullish \<Rightarrow> (Some TypeError, [ConsoleWarn err])
      | Other \<Rightarrow> (None, [ConsoleWarn err])
      | Error n \<Rightarrow>
          (None,
           ConsoleWarn err #
           (if n = ''TokenDisabledError''
            then [Alert ''This token is currently paused in the bridge''] else [])))"

text \<open>
  \<open>selectToken\<close>: the first component is the error with which the promise it returns
  is rejected, if any.
\<close>

definition selectToken ::
  "'d dispatcher_env \<Rightarrow> SearchableToken option \<Rightarrow> ERC20BridgeToken option \<Rightarrow> run" where
  "selectToken env chosen selected =
     (case chosen of
        None \<Rightarrow> (None, None, [Close, SetSelectedToken None])
      | Some t \<Rightarrow>
          if address t = [] then (None, selected, [Close])
          else
            (case selectToken_try env t selected of
               (None, selected', calls) \<Rightarrow> (None, selected', Close # calls)
             | (Some err, selected', calls) \<Rightarrow>
                 (case selectToken_catch err of
                    (thrown, logged) \<Rightarrow> (thrown, selected', Close # calls @ logged))))"

section \<open>Properties of the string functions\<close>

lemma startsWith_iff: "startsWith s q \<longleftrightarrow> prefix q s"
  by (induction s q rule: startsWith.induct) auto

lemma str_includes_iff: "str_includes s q \<longleftrightarrow> sublist q s"
  by (induction s) (auto simp: startsWith_iff sublist_Cons_right)

section \<open>Properties of the candidates, the filter and the sort\<close>

lemma set_dedupe: "set (dedupe xs) = set xs"
  by (induction xs rule: dedupe.induct) auto

lemma distinct_dedupe: "distinct (dedupe xs)"
  by (induction xs rule: dedupe.induct) (auto simp: set_dedupe)

lemma set_candidates:
  "set (candidates U L) = insert ETH_IDENTIFIER (set (Object_keys U) \<union> set (Object_keys L))"
  by (simp add: candidates_def set_dedupe)

lemma filterE_total:
  "(\<And>x. x \<in> set xs \<Longrightarrow> p x = Inr (q x)) \<Longrightarrow> filterE p xs = Inr (filter q xs)"
  by (induction xs) auto

lemma getProp_keys: "k \<in> set (Object_keys obj) \<Longrightarrow> \<exists>v. getProp obj k = Some v"
proof -
  assume "k \<in> set (Object_keys obj)"
  then have "map_of obj k \<noteq> None"
    by (simp add: Object_keys_def map_of_eq_None_iff)
  then show ?thesis by (simp add: getProp_def)
qed

lemma searchedToken_keys:
  "a \<in> set (Object_keys U) \<union> set (Object_keys L) \<Longrightarrow> \<exists>t. searchedToken U L a = Some t"
  using getProp_keys [of a U] getProp_keys [of a L]
  by (auto simp: searchedToken_def split: option.splits)

text \<open>The callback never throws on a candidate: every candidate is bound in an object.\<close>

lemma shouldShow_candidates:
  "a \<in> set (candidates U L) \<Longrightarrow> shouldShow U L B d q a = Inr (shouldShow U L B d q a = Inr True)"
  using searchedToken_keys [of a U L]
  by (auto simp: shouldShow_def set_candidates split: option.splits)

lemma set_insertBy: "set (insertBy cmp x ys) = insert x (set ys)"
  by (induction ys) auto

lemma set_foldl_insertBy:
  "set (foldl (\<lambda>placed x. insertBy cmp x placed) acc xs) = set acc \<union> set xs"
  by (induction xs arbitrary: acc) (auto simp: set_insertBy)

lemma set_Array_sort: "set (Array_sort cmp xs) = set xs"
  by (simp add: Array_sort_def set_foldl_insertBy)

text \<open>The display list is always computed: no input makes \<open>tokensToShow\<close> throw.\<close>

lemma tokensToShow_eq:
  "tokensToShow U L B d typed =
     Inr (Array_sort (compareTokens B d)
            (filter (\<lambda>a. shouldShow U L B d (tokenSearch typed) a = Inr True) (candidates U L)))"
proof -
  have "filterE (shouldShow U L B d (tokenSearch typed)) (candidates U L) =
        Inr (filter (\<lambda>a. shouldShow U L B d (tokenSearch typed) a = Inr True) (candidates U L))"
    by (rule filterE_total) (rule shouldShow_candidates)
  then show ?thesis by (simp add: tokensToShow_def)
qed

lemma set_tokensToShow:
  "tokensToShow U L B d typed = Inr shown \<Longrightarrow>
   set shown = {a \<in> set (candidates U L). shouldShow U L B d (tokenSearch typed) a = Inr True}"
  by (auto simp: tokensToShow_eq set_Array_sort)

text \<open>
  Claim C1. With a non-empty query (the trimmed, lower-cased input) the display list is
  computed, the native asset is on it exactly when the query is a substring of
  \<open>ethereumeth\<close>, and every other candidate (a key of either token object) is on it
  exactly when the query is a substring of the lower-cased concatenation of its name,
  symbol, address and L2 address (nothing when it has none).
\<close>

theorem search_filter_iff:
  assumes "tokenSearch typed \<noteq> []"
  shows "\<exists>shown. tokensToShow U L B d typed = Inr shown \<and>
     (ETH_IDENTIFIER \<in> set shown \<longleftrightarrow> sublist (tokenSearch typed) ''ethereumeth'') \<and>
     (\<forall>a t. a \<noteq> ETH_IDENTIFIER \<and> a \<in> set (Object_keys U) \<union> set (Object_keys L) \<and>
            searchedToken U L a = Some t \<longrightarrow>
        (a \<in> set shown \<longleftrightarrow>
           sublist (tokenSearch typed)
             (toLowerCase (name t @ symbol t @ address t @
                (case l2Address t of None \<Rightarrow> [] | Some l2 \<Rightarrow> l2)))))"
proof -
  obtain shown where s: "tokensToShow U L B d typed = Inr shown"
    by (simp add: tokensToShow_eq)
  note mem = set_tokensToShow [OF s]
  have eth: "ETH_IDENTIFIER \<in> set shown \<longleftrightarrow> sublist (tokenSearch typed) ''ethereumeth''"
    using assms by (simp add: mem set_candidates shouldShow_def str_includes_iff)
  have tok: "a \<in> set shown \<longleftrightarrow>
           sublist (tokenSearch typed)
             (toLowerCase (name t @ symbol t @ address t @
                (case l2Address t of None \<Rightarrow> [] | Some l2 \<Rightarrow> l2)))"
    if "a \<noteq> ETH_IDENTIFIER" "a \<in> set (Object_keys U) \<union> set (Object_keys L)"
       "searchedToken U L a = Some t" for a t
    using assms that by (simp add: mem set_candidates shouldShow_def str_includes_iff searchText_def)
  show ?thesis using s eth tok by blast
qed

text \<open>
  The query \<open>dai\<close>, typed with spaces and a capital, keeps the user's Dai token and drops
  both the native asset and a listed token that does not match.
\<close>

theorem search_filter_iff_witness:
  "tokenSearch '' Dai '' \<noteq> [] \<and>
   (\<exists>shown.
      tokensToShow
        [(''0xA1'', \<lparr>name = ''Dai Stablecoin'', symbol = ''DAI'', address = ''0xA1'',
            l2Address = None, decimals = 18, logoURI = None, listID = None, tokenLists = []\<rparr>)]
        [(''0xB2'', \<lparr>name = ''Wrapped BTC'', symbol = ''WBTC'', address = ''0xB2'',
            l2Address = Some ''0xC3'', decimals = 8, logoURI = None, listID = Some 1,
            tokenLists = [1]\<rparr>)]
        None True '' Dai '' = Inr shown \<and>
      ETH_IDENTIFIER \<notin> set shown \<and> ''0xA1'' \<in> set shown \<and> ''0xB2'' \<notin> set shown)"
proof -
  let ?U = "[(''0xA1'', \<lparr>name = ''Dai Stablecoin'', symbol = ''DAI'', address = ''0xA1'',
            l2Address = None, decimals = 18, logoURI = None, listID = None, tokenLists = []\<rparr>)]"
  let ?L = "[(''0xB2'', \<lparr>name = ''Wrapped BTC'', symbol = ''WBTC'', address = ''0xB2'',
            l2Address = Some ''0xC3'', decimals = 8, logoURI = None, listID = Some 1,
            tokenLists = [1]\<rparr>)]"
  have q: "tokenSearch '' Dai '' \<noteq> []" by code_simp
  from search_filter_iff [OF q, of ?U ?L None True]
  obtain shown where s: "tokensToShow ?U ?L None True '' Dai '' = Inr shown"
    and e: "ETH_IDENTIFIER \<in> set shown \<longleftrightarrow> sublist (tokenSearch '' Dai '') ''ethereumeth''"
    and t: "\<And>a t. a \<noteq> ETH_IDENTIFIER \<Longrightarrow> a \<in> set (Object_keys ?U) \<union> set (Object_keys ?L) \<Longrightarrow>
            searchedToken ?U ?L a = Some t \<Longrightarrow>
        (a \<in> set shown \<longleftrightarrow>
           sublist (tokenSearch '' Dai '')
             (toLowerCase (name t @ symbol t @ address t @
                (case l2Address t of None \<Rightarrow> [] | Some l2 \<Rightarrow> l2))))"
    by blast
  have "\<not> str_includes ''ethereumeth'' (tokenSearch '' Dai '')" by code_simp
  with e have 1: "ETH_IDENTIFIER \<notin> set shown" by (simp add: str_includes_iff)
  have "str_includes (toLowerCase (''Dai Stablecoin'' @ ''DAI'' @ ''0xA1'' @ [])) (tokenSearch '' Dai '')"
    by code_simp
  moreover have "''0xA1'' \<noteq> ETH_IDENTIFIER" by code_simp
  moreover have "searchedToken ?U ?L ''0xA1'' = Some (snd (hd ?U))" by code_simp
  ultimately have 2: "''0xA1'' \<in> set shown"
    using t [of "''0xA1''" "snd (hd ?U)"] by (simp add: str_includes_iff Object_keys_def)
  have "\<not> str_includes (toLowerCase (''Wrapped BTC'' @ ''WBTC'' @ ''0xB2'' @ ''0xC3'')) (tokenSearch '' Dai '')"
    by code_simp
  moreover have "''0xB2'' \<noteq> ETH_IDENTIFIER" by code_simp
  moreover have "searchedToken ?U ?L ''0xB2'' = Some (snd (hd ?L))" by code_simp
  ultimately have 3: "''0xB2'' \<notin> set shown"
    using t [of "''0xB2''" "snd (hd ?L)"] by (simp add: str_includes_iff Object_keys_def)
  show ?thesis using q s 1 2 3 by blast
qed

text \<open>
  Claim C3. With an empty query the display list is computed, the native asset is on it,
  and every other candidate is on it exactly when the balances are loaded, hold an entry
  for its address, and the balance of that entry in the active mode (\<open>balance\<close> when
  depositing, \<open>arbChainBalance\<close> when withdrawing) is present and greater than zero.
\<close>

theorem empty_query_filter:
  assumes "tokenSearch typed = []"
  shows "\<exists>shown. tokensToShow U L B isDepositMode typed = Inr shown \<and>
     ETH_IDENTIFIER \<in> set shown \<and>
     (\<forall>a. a \<noteq> ETH_IDENTIFIER \<and> a \<in> set (Object_keys U) \<union> set (Object_keys L) \<longrightarrow>
        (a \<in> set shown \<longleftrightarrow>
           (\<exists>loaded entry b. B = Some loaded \<and> erc20 loaded a = Some entry \<and>
              (if isDepositMode then balance entry else arbChainBalance entry) = Some b \<and>
              0 < b)))"
proof -
  obtain shown where s: "tokensToShow U L B isDepositMode typed = Inr shown"
    by (simp add: tokensToShow_eq)
  note mem = set_tokensToShow [OF s]
  have eth: "ETH_IDENTIFIER \<in> set shown"
    using assms by (simp add: mem set_candidates shouldShow_def)
  have tok: "a \<in> set shown \<longleftrightarrow>
           (\<exists>loaded entry b. B = Some loaded \<and> erc20 loaded a = Some entry \<and>
              (if isDepositMode then balance entry else arbChainBalance entry) = Some b \<and>
              0 < b)"
    if "a \<noteq> ETH_IDENTIFIER" "a \<in> set (Object_keys U) \<union> set (Object_keys L)" for a
    using assms that
    by (auto simp: mem set_candidates shouldShow_def getBalance_def split: option.splits)
  show ?thesis using s eth tok by blast
qed

text \<open>
  A query of two spaces is empty. Dai holds 5 on L1 and nothing on L2, Wrapped BTC
  nothing on L1 and 7 on L2: when depositing Dai is kept and Wrapped BTC dropped, when
  withdrawing it is the other way round; the native asset stays in both modes.
\<close>

theorem empty_query_filter_witness:
  "tokenSearch ''  '' = [] \<and>
   (\<exists>shown.
      tokensToShow
        [(''0xA1'', \<lparr>name = ''Dai Stablecoin'', symbol = ''DAI'', address = ''0xA1'',
            l2Address = None, decimals = 18, logoURI = None, listID = None, tokenLists = []\<rparr>)]
        [(''0xB2'', \<lparr>name = ''Wrapped BTC'', symbol = ''WBTC'', address = ''0xB2'',
            l2Address = Some ''0xC3'', decimals = 8, logoURI = None, listID = Some 1,
            tokenLists = [1]\<rparr>)]
        (Some \<lparr>eth = \<lparr>balance = None, arbChainBalance = None\<rparr>,
               erc20 = [''0xA1'' \<mapsto> \<lparr>balance = Some 5, arbChainBalance = Some 0\<rparr>,
                        ''0xB2'' \<mapsto> \<lparr>balance = Some 0, arbChainBalance = Some 7\<rparr>]\<rparr>)
        True ''  '' = Inr shown \<and>
      ETH_IDENTIFIER \<in> set shown \<and> ''0xA1'' \<in> set shown \<and> ''0xB2'' \<notin> set shown) \<and>
   (\<exists>shown.
      tokensToShow
        [(''0xA1'', \<lparr>name = ''Dai Stablecoin'', symbol = ''DAI'', address = ''0xA1'',
            l2Address = None, decimals = 18, logoURI = None, listID = None, tokenLists = []\<rparr>)]
        [(''0xB2'', \<lparr>name = ''Wrapped BTC'', symbol = ''WBTC'', address = ''0xB2'',
            l2Address = Some ''0xC3'', decimals = 8, logoURI = None, listID = Some 1,
            tokenLists = [1]\<rparr>)]
        (Some \<lparr>eth = \<lparr>balance = None, arbChainBalance = None\<rparr>,
               erc20 = [''0xA1'' \<mapsto> \<lparr>balance = Some 5, arbChainBalance = Some 0\<rparr>,
                        ''0xB2'' \<mapsto> \<lparr>balance = Some 0, arbChainBalance = Some 7\<rparr>]\<rparr>)
        False ''  '' = Inr shown \<and>
      ETH_IDENTIFIER \<in> set shown \<and> ''0xA1'' \<notin> set shown \<and> ''0xB2'' \<in> set shown)"
proof -
  let ?U = "[(''0xA1'', \<lparr>name = ''Dai Stablecoin'', symbol = ''DAI'', address = ''0xA1'',
            l2Address = None, decimals = 18, logoURI = None, listID = None, tokenLists = []\<rparr>)]"
  let ?L = "[(''0xB2'', \<lparr>name = ''Wrapped BTC'', symbol = ''WBTC'', address = ''0xB2'',
            l2Address = Some ''0xC3'', decimals = 8, logoURI = None, listID = Some 1,
            tokenLists = [1]\<rparr>)]"
  let ?bal = "\<lparr>eth = \<lparr>balance = None, arbChainBalance = None\<rparr>,
               erc20 = [''0xA1'' \<mapsto> \<lparr>balance = Some 5, arbChainBalance = Some 0\<rparr>,
                        ''0xB2'' \<mapsto> \<lparr>balance = Some 0, arbChainBalance = Some 7\<rparr>]\<rparr>"
  have q: "tokenSearch ''  '' = []" by code_simp
  have a: "''0xA1'' \<noteq> ETH_IDENTIFIER" by code_simp
  have b: "''0xB2'' \<noteq> ETH_IDENTIFIER" by code_simp
  have ea: "erc20 ?bal ''0xA1'' = Some \<lparr>balance = Some 5, arbChainBalance = Some 0\<rparr>" by simp
  have eb: "erc20 ?bal ''0xB2'' = Some \<lparr>balance = Some 0, arbChainBalance = Some 7\<rparr>" by simp
  from empty_query_filter [OF q, of ?U ?L "Some ?bal" True]
  obtain shown where s: "tokensToShow ?U ?L (Some ?bal) True ''  '' = Inr shown"
    and e: "ETH_IDENTIFIER \<in> set shown"
    and t: "\<And>a. a \<noteq> ETH_IDENTIFIER \<Longrightarrow> a \<in> set (Object_keys ?U) \<union> set (Object_keys ?L) \<Longrightarrow>
        (a \<in> set shown \<longleftrightarrow>
           (\<exists>loaded entry b. Some ?bal = Some loaded \<and> erc20 loaded a = Some entry \<and>
              (if True then balance entry else arbChainBalance entry) = Some b \<and> 0 < b))"
    by blast
  have d1: "''0xA1'' \<in> set shown"
    using t [OF a] ea by (simp add: Object_keys_def)
  have d2: "''0xB2'' \<notin> set shown"
    using t [OF b] eb by (simp add: Object_keys_def)
  from empty_query_filter [OF q, of ?U ?L "Some ?bal" False]
  obtain shown' where s': "tokensToShow ?U ?L (Some ?bal) False ''  '' = Inr shown'"
    and e': "ETH_IDENTIFIER \<in> set shown'"
    and t': "\<And>a. a \<noteq> ETH_IDENTIFIER \<Longrightarrow> a \<in> set (Object_keys ?U) \<union> set (Object_keys ?L) \<Longrightarrow>
        (a \<in> set shown' \<longleftrightarrow>
           (\<exists>loaded entry b. Some ?bal = Some loaded \<and> erc20 loaded a = Some entry \<and>
              (if False then balance entry else arbChainBalance entry) = Some b \<and> 0 < b))"
    by blast
  have w1: "''0xA1'' \<notin> set shown'"
    using t' [OF a] ea by (simp add: Object_keys_def)
  have w2: "''0xB2'' \<in> set shown'"
    using t' [OF b] eb by (simp add: Object_keys_def)
  show ?thesis using q s e d1 d2 s' e' w1 w2 by blast
qed

text \<open>The native asset, once at the front, stays at the front of the sort.\<close>

lemma hd_insertBy_eth:
  "placed = ETH_IDENTIFIER # rest \<Longrightarrow>
   \<exists>rest'. insertBy (compareTokens B d) x placed = ETH_IDENTIFIER # rest'"
  by (auto simp: compareTokens_def)

lemma hd_foldl_insertBy_eth:
  "\<exists>rest'. foldl (\<lambda>placed x. insertBy (compareTokens B d) x placed) (ETH_IDENTIFIER # rest) xs
      = ETH_IDENTIFIER # rest'"
proof (induction xs arbitrary: rest)
  case Nil
  then show ?case by simp
next
  case (Cons x xs)
  obtain rest' where "insertBy (compareTokens B d) x (ETH_IDENTIFIER # rest) = ETH_IDENTIFIER # rest'"
    using hd_insertBy_eth by blast
  then show ?case using Cons.IH [of rest'] by simp
qed

lemma Array_sort_eth_first:
  "\<exists>rest. Array_sort (compareTokens B d) (ETH_IDENTIFIER # xs) = ETH_IDENTIFIER # rest"
  using hd_foldl_insertBy_eth [of B d "[]" xs] by (simp add: Array_sort_def)

text \<open>
  Claim C4, as amended. The display list is always computed; the native asset is on it
  exactly when the query is a substring of \<open>ethereumeth\<close> (the empty query is one),
  and whenever it is on the list it is the first element.
\<close>

theorem native_entry_first_iff_matching:
  "\<exists>shown. tokensToShow U L B d typed = Inr shown \<and>
     (ETH_IDENTIFIER \<in> set shown \<longleftrightarrow> sublist (tokenSearch typed) ''ethereumeth'') \<and>
     (sublist (tokenSearch typed) ''ethereumeth'' \<longrightarrow> (\<exists>rest. shown = ETH_IDENTIFIER # rest))"
proof (cases "sublist (tokenSearch typed) ''ethereumeth''")
  case True
  then have "shouldShow U L B d (tokenSearch typed) ETH_IDENTIFIER = Inr True"
    by (auto simp: shouldShow_def str_includes_iff)
  then obtain rest where "tokensToShow U L B d typed = Inr (ETH_IDENTIFIER # rest)"
    using Array_sort_eth_first [of B d] by (fastforce simp: tokensToShow_eq candidates_def)
  with True show ?thesis by simp
next
  case False
  then have ne: "tokenSearch typed \<noteq> []" by auto
  obtain shown where s: "tokensToShow U L B d typed = Inr shown"
    by (simp add: tokensToShow_eq)
  have "ETH_IDENTIFIER \<notin> set shown"
    using False ne by (simp add: set_tokensToShow [OF s] shouldShow_def str_includes_iff)
  with s False show ?thesis by simp
qed

text \<open>The query \<open>Eth\<close> shows the native asset first, then Wrapped Ether.\<close>

theorem native_entry_first_iff_matching_witness:
  "sublist (tokenSearch ''Eth'') ''ethereumeth'' \<and>
   tokensToShow
     [(''0xA1'', \<lparr>name = ''Dai Stablecoin'', symbol = ''DAI'', address = ''0xA1'',
         l2Address = None, decimals = 18, logoURI = None, listID = None, tokenLists = []\<rparr>)]
     [(''0xD4'', \<lparr>name = ''Wrapped Ether'', symbol = ''WETH'', address = ''0xD4'',
         l2Address = None, decimals = 18, logoURI = None, listID = Some 1, tokenLists = [1]\<rparr>)]
     None True ''Eth'' = Inr [ETH_IDENTIFIER, ''0xD4'']"
proof -
  let ?U = "[(''0xA1'', \<lparr>name = ''Dai Stablecoin'', symbol = ''DAI'', address = ''0xA1'',
         l2Address = None, decimals = 18, logoURI = None, listID = None, tokenLists = []\<rparr>)]"
  let ?L = "[(''0xD4'', \<lparr>name = ''Wrapped Ether'', symbol = ''WETH'', address = ''0xD4'',
         l2Address = None, decimals = 18, logoURI = None, listID = Some 1, tokenLists = [1]\<rparr>)]"
  have q: "sublist (tokenSearch ''Eth'') ''ethereumeth''"
    unfolding str_includes_iff [symmetric] by code_simp
  have v: "tokensToShow ?U ?L None True ''Eth'' = Inr [ETH_IDENTIFIER, ''0xD4'']"
    by code_simp
  from native_entry_first_iff_matching [of ?U ?L None True "''Eth''"] q v
  show ?thesis by simp
qed

text \<open>
  Claim C4 as stated fails: for the query \<open>dai\<close> the display list is the Dai token alone,
  without the native asset.
\<close>

theorem native_entry_absent_counterexample:
  "tokensToShow
     [(''0xA1'', \<lparr>name = ''Dai Stablecoin'', symbol = ''DAI'', address = ''0xA1'',
         l2Address = None, decimals = 18, logoURI = None, listID = None, tokenLists = []\<rparr>)]
     [] None True ''dai'' = Inr [''0xA1'']"
  by code_simp

text \<open>
  Claim C5, as amended. With a non-empty query, every entry of the display list other
  than the native asset has a record whose lower-cased concatenation of name, symbol,
  address and L2 address contains the query as a substring.
\<close>

theorem shown_token_matches_concatenation:
  assumes "tokenSearch typed \<noteq> []"
    and "tokensToShow U L B d typed = Inr shown"
    and "a \<in> set shown" and "a \<noteq> ETH_IDENTIFIER"
  shows "\<exists>t. searchedToken U L a = Some t \<and>
     sublist (tokenSearch typed)
       (toLowerCase (name t @ symbol t @ address t @
          (case l2Address t of None \<Rightarrow> [] | Some l2 \<Rightarrow> l2)))"
  using assms set_tokensToShow [OF assms(2)]
  by (auto simp: shouldShow_def str_includes_iff searchText_def split: option.splits)

text \<open>The same token and query, where the concatenation does contain the query.\<close>

theorem shown_token_matches_concatenation_witness:
  "tokenSearch ''ru'' \<noteq> [] \<and>
   tokensToShow
     [(''0xdac17f'', \<lparr>name = ''Tether'', symbol = ''USDT'', address = ''0xdac17f'',
         l2Address = None, decimals = 6, logoURI = None, listID = None, tokenLists = []\<rparr>)]
     [] None True ''ru'' = Inr [''0xdac17f''] \<and>
   ''0xdac17f'' \<in> set [''0xdac17f''] \<and> ''0xdac17f'' \<noteq> ETH_IDENTIFIER \<and>
   (\<exists>t. searchedToken
      [(''0xdac17f'', \<lparr>name = ''Tether'', symbol = ''USDT'', address = ''0xdac17f'',
         l2Address = None, decimals = 6, logoURI = None, listID = None, tokenLists = []\<rparr>)]
      [] ''0xdac17f'' = Some t \<and>
      sublist (tokenSearch ''ru'')
       (toLowerCase (name t @ symbol t @ address t @
          (case l2Address t of None \<Rightarrow> [] | Some l2 \<Rightarrow> l2))))"
proof -
  let ?U = "[(''0xdac17f'', \<lparr>name = ''Tether'', symbol = ''USDT'', address = ''0xdac17f'',
         l2Address = None, decimals = 6, logoURI = None, listID = None, tokenLists = []\<rparr>)]"
  have q: "tokenSearch ''ru'' \<noteq> []" by code_simp
  have v: "tokensToShow ?U [] None True ''ru'' = Inr [''0xdac17f'']" by code_simp
  have m: "''0xdac17f'' \<in> set [''0xdac17f'']" by simp
  have n: "''0xdac17f'' \<noteq> ETH_IDENTIFIER" by code_simp
  from shown_token_matches_concatenation [OF q v m n] q v m n
  show ?thesis by blast
qed

text \<open>
  Claim C5 as stated fails: the query \<open>ru\<close> keeps Tether, since \<open>tetherusdt\<close> contains it
  across the end of the name and the start of the symbol, while no field of the token
  contains it (the token has no L2 address).
\<close>

theorem match_across_fields_counterexample:
  "tokensToShow
     [(''0xdac17f'', \<lparr>name = ''Tether'', symbol = ''USDT'', address = ''0xdac17f'',
         l2Address = None, decimals = 6, logoURI = None, listID = None, tokenLists = []\<rparr>)]
     [] None True ''ru'' = Inr [''0xdac17f''] \<and>
   \<not> sublist ''ru'' (toLowerCase ''Tether'') \<and>
   \<not> sublist ''ru'' (toLowerCase ''USDT'') \<and>
   \<not> sublist ''ru'' (toLowerCase ''0xdac17f'')"
  unfolding str_includes_iff [symmetric] by code_simp

section \<open>Properties of the comparator\<close>

text \<open>
  The precedence of the comparator: the native asset before every other address, an
  absent balance after a present one, two absent balances equal, the larger of two
  present balances first.
\<close>

lemma compareTokens_native_first:
  "a \<noteq> ETH_IDENTIFIER \<Longrightarrow>
   compareTokens B d ETH_IDENTIFIER a = - 1 \<and> compareTokens B d a ETH_IDENTIFIER = 1"
  by (simp add: compareTokens_def)

lemma compareTokens_absent_after_present:
  "a \<noteq> ETH_IDENTIFIER \<Longrightarrow> b \<noteq> ETH_IDENTIFIER \<Longrightarrow>
   getBalance B d a = None \<Longrightarrow> getBalance B d b = Some y \<Longrightarrow>
   compareTokens B d a b = 1 \<and> compareTokens B d b a = - 1"
  by (simp add: compareTokens_def)

lemma compareTokens_both_absent:
  "a \<noteq> ETH_IDENTIFIER \<Longrightarrow> b \<noteq> ETH_IDENTIFIER \<Longrightarrow>
   getBalance B d a = None \<Longrightarrow> getBalance B d b = None \<Longrightarrow>
   compareTokens B d a b = 0"
  by (simp add: compareTokens_def)

lemma compareTokens_larger_first:
  "a \<noteq> ETH_IDENTIFIER \<Longrightarrow> b \<noteq> ETH_IDENTIFIER \<Longrightarrow>
   getBalance B d a = Some x \<Longrightarrow> getBalance B d b = Some y \<Longrightarrow> y < x \<Longrightarrow>
   compareTokens B d a b = - 1 \<and> compareTokens B d b a = 1"
  by (simp add: compareTokens_def)

text \<open>
  Two addresses with the same present balance are each put after the other: the last
  line of the comparator answers 1 whenever the first balance is not the greater one.
  Away from such ties (and from the native asset compared with itself) swapping the
  arguments negates the answer.
\<close>

lemma compareTokens_equal_balances:
  "a \<noteq> ETH_IDENTIFIER \<Longrightarrow> b \<noteq> ETH_IDENTIFIER \<Longrightarrow>
   getBalance B d a = Some x \<Longrightarrow> getBalance B d b = Some x \<Longrightarrow>
   compareTokens B d a b = 1 \<and> compareTokens B d b a = 1"
  by (simp add: compareTokens_def)

lemma compareTokens_antisym_off_ties:
  "\<not> (a = ETH_IDENTIFIER \<and> b = ETH_IDENTIFIER) \<Longrightarrow>
   \<not> (a \<noteq> ETH_IDENTIFIER \<and> b \<noteq> ETH_IDENTIFIER \<and> getBalance B d a \<noteq> None \<and> getBalance B d a = getBalance B d b) \<Longrightarrow>
   compareTokens B d a b = - compareTokens B d b a"
  by (auto simp: compareTokens_def split: option.splits)

text \<open>
  With the sort taken as the stable insertion sort, the sorted list is nevertheless in
  the order of the precedence: the native asset, then the present balances from the
  largest down, then the absent ones.
\<close>

lemma insertBy_ordered:
  assumes tr: "\<And>a b c. R a b \<Longrightarrow> R b c \<Longrightarrow> R a c"
    and neg: "\<And>a b. \<not> cmp a b < 0 \<Longrightarrow> R b a"
    and pos: "\<And>a b. cmp a b < 0 \<Longrightarrow> R a b"
    and s: "sorted_wrt R ys"
  shows "sorted_wrt R (insertBy cmp x ys)"
  using s
proof (induction ys)
  case Nil
  then show ?case by simp
next
  case (Cons y ys)
  show ?case
  proof (cases "cmp x y < 0")
    case True
    then have xy: "R x y" by (rule pos)
    have "\<forall>z\<in>set ys. R x z" using Cons.prems xy tr by auto
    with True xy Cons.prems show ?thesis by simp
  next
    case False
    then have "R y x" by (rule neg)
    with False Cons show ?thesis by (auto simp: set_insertBy)
  qed
qed

lemma foldl_insertBy_ordered:
  assumes tr: "\<And>a b c. R a b \<Longrightarrow> R b c \<Longrightarrow> R a c"
    and neg: "\<And>a b. \<not> cmp a b < 0 \<Longrightarrow> R b a"
    and pos: "\<And>a b. cmp a b < 0 \<Longrightarrow> R a b"
  shows "sorted_wrt R acc \<Longrightarrow> sorted_wrt R (foldl (\<lambda>placed x. insertBy cmp x placed) acc xs)"
proof (induction xs arbitrary: acc)
  case Nil
  then show ?case by simp
next
  case (Cons x xs)
  have "sorted_wrt R (insertBy cmp x acc)"
    by (rule insertBy_ordered [OF tr neg pos Cons.prems])
  then show ?case using Cons.IH by simp
qed

lemma Array_sort_by_precedence:
  "sorted_wrt
     (\<lambda>a b. a = ETH_IDENTIFIER \<or>
        (b \<noteq> ETH_IDENTIFIER \<and>
         (case (getBalance B d a, getBalance B d b) of
            (Some x, Some y) \<Rightarrow> y \<le> x
          | (Some x, None) \<Rightarrow> True
          | (None, Some y) \<Rightarrow> False
          | (None, None) \<Rightarrow> True)))
     (Array_sort (compareTokens B d) xs)"
  unfolding Array_sort_def
proof (rule foldl_insertBy_ordered)
  show "sorted_wrt
     (\<lambda>a b. a = ETH_IDENTIFIER \<or>
        (b \<noteq> ETH_IDENTIFIER \<and>
         (case (getBalance B d a, getBalance B d b) of
            (Some x, Some y) \<Rightarrow> y \<le> x
          | (Some x, None) \<Rightarrow> True
          | (None, Some y) \<Rightarrow> False
          | (None, None) \<Rightarrow> True))) []" by simp
qed (auto simp: compareTokens_def split: option.splits if_splits)

text \<open>
  Claim C2. The comparator is not that of a total order: for two tokens that both hold
  5, it answers 1 for either order of the two, and 1 for a token compared with itself.
\<close>

theorem compareTokens_tie_both_after:
  "compareTokens
     (Some \<lparr>eth = \<lparr>balance = None, arbChainBalance = None\<rparr>,
            erc20 = [''0xA1'' \<mapsto> \<lparr>balance = Some 5, arbChainBalance = None\<rparr>,
                     ''0xB2'' \<mapsto> \<lparr>balance = Some 5, arbChainBalance = None\<rparr>]\<rparr>)
     True ''0xA1'' ''0xB2'' = 1 \<and>
   compareTokens
     (Some \<lparr>eth = \<lparr>balance = None, arbChainBalance = None\<rparr>,
            erc20 = [''0xA1'' \<mapsto> \<lparr>balance = Some 5, arbChainBalance = None\<rparr>,
                     ''0xB2'' \<mapsto> \<lparr>balance = Some 5, arbChainBalance = None\<rparr>]\<rparr>)
     True ''0xB2'' ''0xA1'' = 1 \<and>
   compareTokens
     (Some \<lparr>eth = \<lparr>balance = None, arbChainBalance = None\<rparr>,
            erc20 = [''0xA1'' \<mapsto> \<lparr>balance = Some 5, arbChainBalance = None\<rparr>,
                     ''0xB2'' \<mapsto> \<lparr>balance = Some 5, arbChainBalance = None\<rparr>]\<rparr>)
     True ''0xA1'' ''0xA1'' = 1"
  by code_simp

section \<open>Properties of the rows\<close>

text \<open>
  Claim C8. For a token address bound in both objects and a non-empty query, the filter
  matches the query against the record of the user object, the row shows the record of
  the list object and a click on it hands that record to \<open>onTokenSelected\<close>; when the
  two records differ, the record that was searched is not the one handed over.
\<close>

theorem search_reads_user_record_row_shows_list_record:
  assumes "getProp U a = Some u" and "getProp L a = Some l"
    and "a \<noteq> ETH_IDENTIFIER" and "q \<noteq> []"
  shows "shouldShow U L B d q a =
       Inr (sublist q (toLowerCase (name u @ symbol u @ address u @
              (case l2Address u of None \<Rightarrow> [] | Some l2 \<Rightarrow> l2)))) \<and>
     searchedToken U L a = Some u \<and>
     rowRenderer U L a = Some (TokenRow l) \<and>
     onClick (TokenRow l) = Some l \<and>
     (u \<noteq> l \<longrightarrow> searchedToken U L a \<noteq> onClick (TokenRow l))"
  using assms
  by (simp add: shouldShow_def searchedToken_def renderedToken_def rowRenderer_def
      searchText_def str_includes_iff)

text \<open>
  The user calls the address Dai, a list calls it Maker Coin: the query \<open>dai\<close> keeps the
  address, and the row delivers the Maker Coin record.
\<close>

theorem search_reads_user_record_row_shows_list_record_witness:
  "shouldShow
     [(''0xA1'', \<lparr>name = ''Dai Stablecoin'', symbol = ''DAI'', address = ''0xA1'',
         l2Address = None, decimals = 18, logoURI = None, listID = None, tokenLists = []\<rparr>)]
     [(''0xA1'', \<lparr>name = ''Maker Coin'', symbol = ''MKC'', address = ''0xA1'',
         l2Address = Some ''0xC3'', decimals = 18, logoURI = None, listID = Some 1,
         tokenLists = [1]\<rparr>)]
     None True ''dai'' ''0xA1'' = Inr True \<and>
   rowRenderer
     [(''0xA1'', \<lparr>name = ''Dai Stablecoin'', symbol = ''DAI'', address = ''0xA1'',
         l2Address = None, decimals = 18, logoURI = None, listID = None, tokenLists = []\<rparr>)]
     [(''0xA1'', \<lparr>name = ''Maker Coin'', symbol = ''MKC'', address = ''0xA1'',
         l2Address = Some ''0xC3'', decimals = 18, logoURI = None, listID = Some 1,
         tokenLists = [1]\<rparr>)]
     ''0xA1'' =
     Some (TokenRow \<lparr>name = ''Maker Coin'', symbol = ''MKC'', address = ''0xA1'',
         l2Address = Some ''0xC3'', decimals = 18, logoURI = None, listID = Some 1,
         tokenLists = [1]\<rparr>) \<and>
   searchedToken
     [(''0xA1'', \<lparr>name = ''Dai Stablecoin'', symbol = ''DAI'', address = ''0xA1'',
         l2Address = None, decimals = 18, logoURI = None, listID = None, tokenLists = []\<rparr>)]
     [(''0xA1'', \<lparr>name = ''Maker Coin'', symbol = ''MKC'', address = ''0xA1'',
         l2Address = Some ''0xC3'', decimals = 18, logoURI = None, listID = Some 1,
         tokenLists = [1]\<rparr>)]
     ''0xA1'' \<noteq>
     onClick (TokenRow \<lparr>name = ''Maker Coin'', symbol = ''MKC'', address = ''0xA1'',
         l2Address = Some ''0xC3'', decimals = 18, logoURI = None, listID = Some 1,
         tokenLists = [1]\<rparr>)"
proof -
  let ?u = "\<lparr>name = ''Dai Stablecoin'', symbol = ''DAI'', address = ''0xA1'',
         l2Address = None, decimals = 18, logoURI = None, listID = None, tokenLists = []\<rparr>"
  let ?l = "\<lparr>name = ''Maker Coin'', symbol = ''MKC'', address = ''0xA1'',
         l2Address = Some ''0xC3'', decimals = 18, logoURI = None, listID = Some 1,
         tokenLists = [1]\<rparr>"
  have 1: "getProp [(''0xA1'', ?u)] ''0xA1'' = Some ?u" by (simp add: getProp_def)
  have 2: "getProp [(''0xA1'', ?l)] ''0xA1'' = Some ?l" by (simp add: getProp_def)
  have 3: "''0xA1'' \<noteq> ETH_IDENTIFIER" by code_simp
  have 4: "''dai'' \<noteq> []" by simp
  have 5: "?u \<noteq> ?l" by simp
  have 6: "str_includes (toLowerCase (''Dai Stablecoin'' @ ''DAI'' @ ''0xA1'' @ [])) ''dai''"
    by code_simp
  from search_reads_user_record_row_shows_list_record [OF 1 2 3 4, of None True] 5 6
  show ?thesis by (simp add: str_includes_iff)
qed

section \<open>Properties of the selection dispatcher\<close>

text \<open>
  Claim C6, as amended. Selecting a token whose address is not empty and not in the
  bridge-token set closes the modal and calls \<open>onImportToken\<close> with that address, and
  nothing else: no fetch, no \<open>setSelectedToken\<close>, the selection as it was, no error.
\<close>

theorem import_needed_for_unknown_token:
  assumes "address t \<noteq> []" and "bridgeTokens env = Some known" and "known (address t) = None"
  shows "selectToken env (Some t) selected = (None, selected, [Close, OnImportToken (address t)])"
  using assms by (simp add: selectToken_def selectToken_try_def)

text \<open>The Dai token against an empty bridge-token set.\<close>

theorem import_needed_for_unknown_token_witness:
  "address \<lparr>name = ''Dai Stablecoin'', symbol = ''DAI'', address = ''0xA1'',
      l2Address = None, decimals = 18, logoURI = None, listID = None, tokenLists = []\<rparr> \<noteq> [] \<and>
   selectToken
     \<lparr>bridgeTokens = Some Map.empty, token = None,
      toERC20BridgeToken = (\<lambda>u :: unit. \<lparr>name = [], symbol = [], address = [],
         l2Address = None, decimals = 0, logoURI = None, listID = None\<rparr>)\<rparr>
     (Some \<lparr>name = ''Dai Stablecoin'', symbol = ''DAI'', address = ''0xA1'',
         l2Address = None, decimals = 18, logoURI = None, listID = None, tokenLists = []\<rparr>)
     None = (None, None, [Close, OnImportToken ''0xA1''])"
  using import_needed_for_unknown_token
    [of "\<lparr>name = ''Dai Stablecoin'', symbol = ''DAI'', address = ''0xA1'',
         l2Address = None, decimals = 18, logoURI = None, listID = None, tokenLists = []\<rparr>"
        "\<lparr>bridgeTokens = Some Map.empty, token = None,
      toERC20BridgeToken = (\<lambda>u :: unit. \<lparr>name = [], symbol = [], address = [],
         l2Address = None, decimals = 0, logoURI = None, listID = None\<rparr>)\<rparr>"
        Map.empty None]
  by simp

text \<open>
  Claim C6 as stated fails: a token whose address is the empty string is in no
  bridge-token set, and selecting it only closes the modal; \<open>onImportToken\<close> is not
  called.
\<close>

theorem empty_address_no_import_counterexample:
  "selectToken
     \<lparr>bridgeTokens = Some Map.empty, token = None,
      toERC20BridgeToken = (\<lambda>u :: unit. \<lparr>name = [], symbol = [], address = [],
         l2Address = None, decimals = 0, logoURI = None, listID = None\<rparr>)\<rparr>
     (Some \<lparr>name = ''Dai Stablecoin'', symbol = ''DAI'', address = [],
         l2Address = None, decimals = 18, logoURI = None, listID = None, tokenLists = []\<rparr>)
     None = (None, None, [Close])"
  by (simp add: selectToken_def)

text \<open>
  When \<open>getL1TokenData\<close> is rejected, for a selected token known to the bridge, with a
  value other than \<open>null\<close> or \<open>undefined\<close>, \<open>selectToken\<close> itself does not fail, the
  selection is as it was, the value is logged with \<open>console.warn\<close>, and the notice is shown
  exactly when the value is an error named \<open>TokenDisabledError\<close>.
\<close>

lemma fetch_rejection_is_caught_unless_nullish:
  assumes "address t \<noteq> []" and "bridgeTokens env = Some known" and "known (address t) = Some b"
    and "token env = Some api" and "getL1TokenData api (address t) = Inl err"
    and "err \<noteq> Nullish"
  shows "selectToken env (Some t) selected =
     (None, selected,
      [Close, GetL1TokenData (address t), ConsoleWarn err] @
      (if err = Error ''TokenDisabledError''
       then [Alert ''This token is currently paused in the bridge''] else []))"
  using assms
  by (cases err) (simp_all add: selectToken_def selectToken_try_def selectToken_catch_def)

text \<open>
  In \<open>addNewToken\<close> the handler that reads the \<open>name\<close> of the rejection runs inside a
  \<open>try\<close> with a \<open>catch\<close> of its own: a rejection with \<open>null\<close> or \<open>undefined\<close> is logged
  there and the flag is cleared.
\<close>

lemma addNewToken_settled_nullish:
  "addNewToken_settled (Some Nullish) p =
     (p\<lparr>isAddingToken := False, pending := pending p - 1\<rparr>,
      [ConsoleLog ''Token not found on this network'', ConsoleLogError TypeError])"
  by (simp add: addNewToken_settled_def storeNewToken_catch_def)

text \<open>
  Claim C7. The claim fails when \<open>getL1TokenData\<close> is rejected with \<open>null\<close> or
  \<open>undefined\<close>: the \<open>catch\<close> block logs the value and then throws a \<open>TypeError\<close> on reading
  its \<open>name\<close>, so the promise of \<open>selectToken\<close> is rejected. Here Dai, known to the
  bridge, is selected while Wrapped Ether is; the selection stays, the failure does not.
\<close>

theorem nullish_rejection_escapes_catch:
  "selectToken
     \<lparr>bridgeTokens = Some [''0xA1'' \<mapsto> \<lparr>name = ''Dai Stablecoin'', symbol = ''DAI'',
         address = ''0xA1'', l2Address = None, decimals = 18, logoURI = None, listID = None\<rparr>],
      token = Some \<lparr>getL1TokenData = (\<lambda>a. Inl Nullish :: js_error + unit option)\<rparr>,
      toERC20BridgeToken = (\<lambda>u :: unit. \<lparr>name = [], symbol = [], address = [],
         l2Address = None, decimals = 0, logoURI = None, listID = None\<rparr>)\<rparr>
     (Some \<lparr>name = ''Dai Stablecoin'', symbol = ''DAI'', address = ''0xA1'',
         l2Address = None, decimals = 18, logoURI = None, listID = None, tokenLists = []\<rparr>)
     (Some \<lparr>name = ''Wrapped Ether'', symbol = ''WETH'', address = ''0xD4'',
         l2Address = None, decimals = 18, logoURI = None, listID = None\<rparr>)
   = (Some TypeError,
      Some \<lparr>name = ''Wrapped Ether'', symbol = ''WETH'', address = ''0xD4'',
         l2Address = None, decimals = 18, logoURI = None, listID = None\<rparr>,
      [Close, GetL1TokenData ''0xA1'', ConsoleWarn Nullish])"
  by (simp add: selectToken_def selectToken_try_def selectToken_catch_def)

text \<open>
  Claim C9. Selecting a token whose address is the empty string closes the modal and
  does nothing else: no \<open>setSelectedToken\<close>, no \<open>onImportToken\<close>, no fetch, whatever the
  bridge-token set and the token API are.
\<close>

theorem empty_address_only_closes:
  assumes "address t = []"
  shows "selectToken env (Some t) selected = (None, selected, [Close])"
  using assms by (simp add: selectToken_def)

text \<open>
  Even when the empty address is in the bridge-token set and the fetch would succeed.
\<close>

theorem empty_address_only_closes_witness:
  "selectToken
     \<lparr>bridgeTokens = Some [[] \<mapsto> \<lparr>name = ''Nameless'', symbol = ''NIL'',
         address = [], l2Address = None, decimals = 18, logoURI = None, listID = None\<rparr>],
      token = Some \<lparr>getL1TokenData = (\<lambda>a. Inr (Some ()))\<rparr>,
      toERC20BridgeToken = (\<lambda>u :: unit. \<lparr>name = [], symbol = [], address = [],
         l2Address = None, decimals = 0, logoURI = None, listID = None\<rparr>)\<rparr>
     (Some \<lparr>name = ''Nameless'', symbol = ''NIL'', address = [],
         l2Address = None, decimals = 18, logoURI = None, listID = None, tokenLists = []\<rparr>)
     None
   = (None, None, [Close])"
  using empty_address_only_closes
    [of "\<lparr>name = ''Nameless'', symbol = ''NIL'', address = [],
         l2Address = None, decimals = 18, logoURI = None, listID = None, tokenLists = []\<rparr>"]
  by simp

section \<open>Properties of the form\<close>

text \<open>The flag is set exactly while a request of the mounted form is outstanding.\<close>

lemma panel_step_invariant:
  "panel_step isAddress p e = Some p' \<Longrightarrow>
   pending p = (if isAddingToken p then 1 else 0) \<Longrightarrow>
   pending p' = (if isAddingToken p' then 1 else 0)"
  by (cases e) (auto simp: addNewToken_def addNewToken_settled_def split: if_splits)

lemma panel_run_invariant:
  "panel_run isAddress p es = Some p' \<Longrightarrow>
   pending p = (if isAddingToken p then 1 else 0) \<Longrightarrow>
   pending p' = (if isAddingToken p' then 1 else 0)"
proof (induction es arbitrary: p)
  case Nil
  then show ?case by simp
next
  case (Cons e es)
  then obtain p1 where s: "panel_step isAddress p e = Some p1"
    and r: "panel_run isAddress p1 es = Some p'"
    by (auto split: option.splits)
  show ?case
    by (rule Cons.IH [OF r]) (rule panel_step_invariant [OF s Cons.prems(2)])
qed

text \<open>
  Claim C10, as amended. After any sequence of typing, submitting, settling and
  remounting, starting from the initial form: at most one request of the mounted form is
  outstanding, and one is exactly when its flag is set; while the flag is set a
  submission changes nothing (no new request); and when that request settles, resolved
  or rejected, the flag is cleared and no request of the mounted form is outstanding.
\<close>

theorem one_add_request_per_mounted_form:
  assumes "panel_run isAddress initialPanel es = Some p"
  shows "pending p \<le> 1 \<and> (isAddingToken p \<longleftrightarrow> pending p = 1) \<and>
     (isAddingToken p \<longrightarrow> panel_step isAddress p SubmitForm = Some p) \<and>
     (\<forall>outcome p'. panel_step isAddress p (AddSettled outcome) = Some p' \<longrightarrow>
        \<not> isAddingToken p' \<and> pending p' = 0)"
proof -
  have inv: "pending p = (if isAddingToken p then 1 else 0)"
    using panel_run_invariant [OF assms] by (simp add: initialPanel_def)
  then show ?thesis
    by (auto simp: addNewToken_def addNewToken_settled_def split: if_splits)
qed

text \<open>
  A form mounted again, the request of its predecessor settled: three submissions of a
  valid address start one request, a further submission is ignored, and a rejection
  clears the flag.
\<close>

theorem one_add_request_per_mounted_form_witness:
  "panel_run (\<lambda>s. s = ''0xA1'') initialPanel
      [SetNewToken ''0xA1'', SubmitForm, Remount, StaleSettled None,
       SetNewToken ''0xA1'', SubmitForm, SubmitForm, SetNewToken ''0xA1'', SubmitForm]
     = Some \<lparr>newToken = ''0xA1'', isAddingToken = True, pending = 1, stale = 0\<rparr> \<and>
   panel_step (\<lambda>s. s = ''0xA1'')
      \<lparr>newToken = ''0xA1'', isAddingToken = True, pending = 1, stale = 0\<rparr> SubmitForm
     = Some \<lparr>newToken = ''0xA1'', isAddingToken = True, pending = 1, stale = 0\<rparr> \<and>
   panel_step (\<lambda>s. s = ''0xA1'')
      \<lparr>newToken = ''0xA1'', isAddingToken = True, pending = 1, stale = 0\<rparr>
      (AddSettled (Some (Error ''TokenDisabledError'')))
     = Some \<lparr>newToken = ''0xA1'', isAddingToken = False, pending = 0, stale = 0\<rparr>"
proof -
  have r: "panel_run (\<lambda>s. s = ''0xA1'') initialPanel
      [SetNewToken ''0xA1'', SubmitForm, Remount, StaleSettled None,
       SetNewToken ''0xA1'', SubmitForm, SubmitForm, SetNewToken ''0xA1'', SubmitForm]
     = Some \<lparr>newToken = ''0xA1'', isAddingToken = True, pending = 1, stale = 0\<rparr>"
    by (simp add: initialPanel_def addNewToken_def)
  have s: "panel_step (\<lambda>s. s = ''0xA1'')
      \<lparr>newToken = ''0xA1'', isAddingToken = True, pending = 1, stale = 0\<rparr>
      (AddSettled (Some (Error ''TokenDisabledError'')))
     = Some \<lparr>newToken = ''0xA1'', isAddingToken = False, pending = 0, stale = 0\<rparr>"
    by (simp add: addNewToken_settled_def)
  from one_add_request_per_mounted_form [OF r] r s show ?thesis by simp
qed

text \<open>
  Claim C10 as stated fails: the flag belongs to the mounted form. After a submission,
  showing the token lists and coming back brings a form with the flag clear, and its
  submission starts a second request while the first is still outstanding.
\<close>

theorem two_requests_after_remount_counterexample:
  "panel_run (\<lambda>s. s = ''0xA1'') initialPanel
      [SetNewToken ''0xA1'', SubmitForm, Remount, SetNewToken ''0xA1'', SubmitForm]
     = Some \<lparr>newToken = ''0xA1'', isAddingToken = True, pending = 1, stale = 1\<rparr>"
  by (simp add: initialPanel_def addNewToken_def)

end
